theory Spec2Isabelle
  imports Complex_Main
begin

section \<open>Geometric objects of the notebook\<close>

text \<open>
  The notebook \<^verbatim>\<open>exam/6shapely_geometric_object.ipynb\<close> defines six one-line functions
  around the geometry library shapely (the installation cell reports version 1.8.5.post1):
  three call a class of the library (\<^verbatim>\<open>Point\<close>, \<^verbatim>\<open>LineString\<close>, \<^verbatim>\<open>Polygon\<close>) and three
  read a property of a geometry (\<^verbatim>\<open>centroid\<close>, \<^verbatim>\<open>area\<close>, \<^verbatim>\<open>length\<close>).

  The library is no part of the repository. Each function is therefore embedded with the
  library entity it delegates to as its first argument: the class it calls, or the getter
  of the property it reads. What the notebook's code does is then stated for every such
  argument. A later subsection instantiates the argument with the behaviour of shapely
  itself, as far as it is needed.

  A finite Python float is modelled by the real number that is its value; no theorem
  about the notebook's functions depends on how the arithmetic of floats rounds.
\<close>

subsection \<open>Data model\<close>

text \<open>The exceptions a call can end in.\<close>

datatype exn = ValueError | TypeError | AttributeError | OverflowError

text \<open>A two-dimensional coordinate tuple \<^verbatim>\<open>(x, y)\<close>.\<close>

type_synonym coord = "real \<times> real"

text \<open>
  The geometries the notebook constructs. A point is one coordinate tuple, with or without
  a third coordinate; a line string is an ordered sequence of coordinate tuples; a polygon
  is an exterior ring and a list of interior rings (holes). Geometries are immutable
  values.
\<close>

datatype geometry =
    Point real real "real option"
  | LineString "coord list"
  | Polygon "coord list" "coord list list"




subsection \<open>The functions of the notebook\<close>




text \<open>
  The three functions that follow read a property of their argument and return what the
  read returns. The type of that result is left open. It can be a plain result, a value
  or an exception; it can also be a computation on the state of the interpreter, a
  function from the state before the read to the result and the state after it, since
  the code of a property may change the state. The function itself assigns to nothing
  but its local variable: the state passes through the read and through nothing else.
\<close>

text \<open>\<^verbatim>\<open>def get_centroid(geom): centroid = geom.centroid; return centroid\<close>\<close>

definition get_centroid :: "('g \<Rightarrow> 'r) \<Rightarrow> 'g \<Rightarrow> 'r" where
  "get_centroid centroid_prop geom = centroid_prop geom"

text \<open>\<^verbatim>\<open>def get_area(polygon): area = polygon.area; return area\<close>\<close>

definition get_area :: "('g \<Rightarrow> 'r) \<Rightarrow> 'g \<Rightarrow> 'r" where
  "get_area area_prop polygon = area_prop polygon"

text \<open>\<^verbatim>\<open>def get_length(polygon): length = polygon.length; return length\<close>\<close>

definition get_length :: "('g \<Rightarrow> 'r) \<Rightarrow> 'g \<Rightarrow> 'r" where
  "get_length length_prop polygon = length_prop polygon"

subsection \<open>The library as the notebook uses it\<close>

text \<open>
  The classes below are code of shapely, not of the repository. They follow the behaviour
  of version 1.8 of the library (its manual, on points, line strings and polygons, and
  the conversion of coordinates by \<^verbatim>\<open>ctypes.c_double\<close>), restricted to two-dimensional
  coordinate tuples in sequences.
\<close>












text \<open>
  Modelled from the spec: the property \<^verbatim>\<open>length\<close> of a geometry, which the library
  computes and the repository does not contain. For a line string it is the cumulative
  length of its segments, for a polygon the perimeter, the sum of the lengths of the
  exterior ring and of the interior rings; a point has length zero. Reading the property
  never raises. The four definitions that follow make it up.
\<close>

text \<open>Modelled from the spec: the length of one segment, the distance of its end points.\<close>

definition seg_length :: "coord \<Rightarrow> coord \<Rightarrow> real" where
  "seg_length p q = sqrt ((fst q - fst p)\<^sup>2 + (snd q - snd p)\<^sup>2)"

text \<open>Modelled from the spec: the cumulative segment length of a coordinate sequence.\<close>

fun path_length :: "coord list \<Rightarrow> real" where
  "path_length (p # q # cs) = seg_length p q + path_length (q # cs)"
| "path_length cs = 0"

text \<open>Modelled from the spec: the length of each kind of geometry.\<close>

fun geom_length :: "geometry \<Rightarrow> real" where
  "geom_length (Point x y z) = 0"
| "geom_length (LineString cs) = path_length cs"
| "geom_length (Polygon ext ints) = path_length ext + sum_list (map path_length ints)"

text \<open>Modelled from the spec: the getter of the property, which always returns.\<close>

definition shapely_length :: "geometry \<Rightarrow> exn + real" where
  "shapely_length geom = Inr (geom_length geom)"

text \<open>
  Modelled from the spec: the well-known text of a geometry, which the library writes
  (\<^verbatim>\<open>print\<close> of a geometry shows it) and the repository does not contain. The spec gives
  it for the line and the polygon of the notebook: the name of the type, then the
  coordinate tuples in their order, separated by a comma and a blank, each tuple as its
  numbers separated by a blank; a polygon lists its rings, each in parentheses. A number
  is written in decimal without trailing zeros, \<open>70.0\<close> as \<^verbatim>\<open>70\<close> and \<open>-3.20\<close> as \<^verbatim>\<open>-3.2\<close>.
  The definitions up to \<open>wkt\<close> make it up.
\<close>










subsection \<open>Notions of the specification\<close>






text \<open>
  Python's \<^verbatim>\<open>round(v, 2)\<close> of a float, in hundredths, away from ties: the nearest integer to
  \<open>100 * v\<close>.
\<close>

definition round2 :: "real \<Rightarrow> int" where
  "round2 v = \<lfloor>100 * v + 1 / 2\<rfloor>"





text \<open>Two calls in sequence: the results of both, and the state after the second.\<close>

definition twice :: "('s \<Rightarrow> 'r \<times> 's) \<Rightarrow> 's \<Rightarrow> ('r \<times> 'r) \<times> 's" where
  "twice call s =
     (case call s of (first, s1) \<Rightarrow> (case call s1 of (second, s2) \<Rightarrow> ((first, second), s2)))"

section \<open>Properties\<close>

subsection \<open>Facts about the library's operations\<close>

lemma path_length_sum:
  "path_length cs = (\<Sum>i<length cs - 1. seg_length (cs ! i) (cs ! Suc i))"
proof (induction cs rule: path_length.induct)
  case (1 p q cs)
  have "(\<Sum>i<length (p # q # cs) - 1. seg_length ((p # q # cs) ! i) ((p # q # cs) ! Suc i))
      = (\<Sum>i<Suc (length cs). seg_length ((p # q # cs) ! i) ((p # q # cs) ! Suc i))"
    by simp
  also have "\<dots>
      = seg_length p q + (\<Sum>i<length cs. seg_length ((q # cs) ! i) ((q # cs) ! Suc i))"
    by (subst sum.lessThan_Suc_shift) simp
  finally show ?case
    using 1 by simp
qed simp_all

lemma sum_list_path_length:
  "sum_list (map path_length rs)
     = (\<Sum>r\<leftarrow>rs. \<Sum>i<length r - 1. seg_length (r ! i) (r ! Suc i))"
  by (induction rs) (simp_all add: path_length_sum)



text \<open>
  The notebook prints \<^verbatim>\<open>Line length: 60.66\<close> for the line from \<open>(45.2, 22.34)\<close> to
  \<open>(100.22, -3.2)\<close>; the length property above gives the same hundredths.
\<close>

lemma line1_length_rounded:
  "round2 (geom_length (LineString [(452 / 10, 2234 / 100), (10022 / 100, - 32 / 10)])) = 6066"
proof -
  have len: "geom_length (LineString [(452 / 10, 2234 / 100), (10022 / 100, - 32 / 10)])
      = sqrt (3679492 / 1000)"
    by (simp add: seg_length_def power2_eq_square)
  have lower: "60655 / 1000 \<le> sqrt (3679492 / 1000)"
    by (rule real_le_rsqrt) (simp add: power2_eq_square)
  have upper: "sqrt (3679492 / 1000) < 60665 / 1000"
    by (rule real_less_lsqrt) (simp_all add: power2_eq_square)
  show ?thesis
    unfolding len round2_def using lower upper by linarith
qed









lemma twice_counting_property:
  "twice (get_area (\<lambda>geom n. (Inr (real n) :: exn + real, Suc n)) (Point 0 0 None)) 0
     = ((Inr 0, Inr 1), 2)"
  by (simp add: twice_def get_area_def)

text \<open>Reading the centroid is reading the property, for every geometry.\<close>

lemma get_centroid_reads_property: "get_centroid centroid_prop = centroid_prop"
  by (rule ext) (simp add: get_centroid_def)

subsection \<open>The claims\<close>

text \<open>
  C1. \<^verbatim>\<open>get_length\<close> is the property \<^verbatim>\<open>length\<close> itself: as a function of the geometry it
  equals the getter of the property, so it returns exactly the length property of every
  input and no branch depends on the type of the input. With the library's property it
  returns, for a line string, the sum of the lengths of its segments, and for a polygon
  the perimeter: the length of the exterior ring plus the lengths of the interior rings.
\<close>

theorem get_length_is_length_property:
  "get_length length_prop = length_prop
   \<and> get_length shapely_length (LineString cs)
       = Inr (\<Sum>i<length cs - 1. seg_length (cs ! i) (cs ! Suc i))
   \<and> get_length shapely_length (Polygon ext ints)
       = Inr ((\<Sum>i<length ext - 1. seg_length (ext ! i) (ext ! Suc i))
              + (\<Sum>r\<leftarrow>ints. \<Sum>i<length r - 1. seg_length (r ! i) (r ! Suc i)))"
proof -
  have "get_length length_prop = length_prop"
    by (rule ext) (simp add: get_length_def)
  moreover have "get_length shapely_length (LineString cs)
       = Inr (\<Sum>i<length cs - 1. seg_length (cs ! i) (cs ! Suc i))"
    by (simp add: get_length_def shapely_length_def path_length_sum)
  moreover have "get_length shapely_length (Polygon ext ints)
       = Inr ((\<Sum>i<length ext - 1. seg_length (ext ! i) (ext ! Suc i))
              + (\<Sum>r\<leftarrow>ints. \<Sum>i<length r - 1. seg_length (r ! i) (r ! Suc i)))"
    by (simp only: get_length_def shapely_length_def geom_length.simps
        path_length_sum [of ext] sum_list_path_length)
  ultimately show ?thesis
    by blast
qed

















end
